theory Spec2Isabelle
  imports
    Main
    "HOL-Library.Word"
    "HOL-Library.Multiset"
    "HOL-Library.Char_ord"
    "HOL-Library.List_Lexorder"
begin

unbundle bit_operations_syntax

section \<open>Python values\<close>

text \<open>
  The attendance application exists twice: \<^verbatim>\<open>server.py\<close> on the standard library's
  \<^verbatim>\<open>http.server\<close>, and \<^verbatim>\<open>app.py\<close> on Flask. Both keep the punches in one SQLite
  table. This theory embeds the handlers of both files, together with the parts of
  Python, of the \<^verbatim>\<open>sqlite3\<close> driver and of Flask that decide what the handlers do.

  A request body decoded by \<^verbatim>\<open>json.loads\<close> is a Python value. A float is kept as its
  IEEE 754 bit pattern: the handlers never compute with floats, they only test them for
  truth and hand them to the database. A \<^verbatim>\<open>str\<close> is kept as its UTF-8 encoding, which
  tells two strings apart, the empty one from the others, and is what the database stores
  and the responses carry. A \<^verbatim>\<open>str\<close> that holds a lone surrogate (JSON can write one
  as \<^verbatim>\<open>\ud800\<close>) has no UTF-8 encoding: it is kept as its code points, of which at
  least one is a surrogate; it is not empty and equals no string that has an encoding.
\<close>

type_synonym pyfloat = "64 word"

datatype pyval =
    PNone
  | PBool bool
  | PInt int
  | PFloat pyfloat
  | PStr string
  | PSurrogateStr "nat list"
  | PList "pyval list"
  | PDict "(string \<times> pyval) list"

definition float_is_zero :: "pyfloat \<Rightarrow> bool" where
  "float_is_zero x = (x AND 0x7FFFFFFFFFFFFFFF = 0)"

definition float_is_nan :: "pyfloat \<Rightarrow> bool" where
  "float_is_nan x =
     (x AND 0x7FF0000000000000 = 0x7FF0000000000000 \<and> x AND 0x000FFFFFFFFFFFFF \<noteq> 0)"

text \<open>Python's truth test, as \<^verbatim>\<open>not x\<close> and \<^verbatim>\<open>bool(x)\<close> apply it.\<close>

fun truthy :: "pyval \<Rightarrow> bool" where
  "truthy PNone = False"
| "truthy (PBool b) = b"
| "truthy (PInt n) = (n \<noteq> 0)"
| "truthy (PFloat x) = (\<not> float_is_zero x)"
| "truthy (PStr s) = (s \<noteq> [])"
| "truthy (PSurrogateStr cps) = True"
| "truthy (PList xs) = (xs \<noteq> [])"
| "truthy (PDict kvs) = (kvs \<noteq> [])"

text \<open>
  Exceptions are values. \<open>ProgrammingError\<close> stands for the driver's refusal to bind a
  parameter (\<^verbatim>\<open>sqlite3.InterfaceError\<close> before Python 3.11), \<open>OperationalError\<close> for
  the two refusals of the database engine (locked, full), \<open>HTTPException c\<close> for a
  werkzeug exception that Flask answers with status \<open>c\<close>.
\<close>

datatype pyerror =
    AttributeError
  | ProgrammingError
  | OverflowError
  | UnicodeEncodeError
  | UnicodeDecodeError
  | IntegrityError
  | OperationalError
  | FileNotFoundError
  | HTTPException nat

definition bnd :: "'e + 'a \<Rightarrow> ('a \<Rightarrow> 'e + 'b) \<Rightarrow> 'e + 'b" where
  "bnd m f = (case m of Inl e \<Rightarrow> Inl e | Inr x \<Rightarrow> f x)"

text \<open>
  \<^verbatim>\<open>d.get(k)\<close> on a dictionary whose keys are unique, as \<^verbatim>\<open>json.loads\<close> builds it:
  the value, or \<^verbatim>\<open>None\<close> for a missing key.
\<close>

definition dict_get :: "(string \<times> pyval) list \<Rightarrow> string \<Rightarrow> pyval" where
  "dict_get kvs k = (case map_of kvs k of None \<Rightarrow> PNone | Some v \<Rightarrow> v)"

text \<open>\<^verbatim>\<open>str(n)\<close> for an integer: decimal digits, with a minus sign.\<close>

fun str_nat :: "nat \<Rightarrow> string" where
  "str_nat n =
     (if n < 10 then [''0123456789'' ! n]
      else str_nat (n div 10) @ [''0123456789'' ! (n mod 10)])"

declare str_nat.simps [simp del]

definition str_int :: "int \<Rightarrow> string" where
  "str_int i = (if i < 0 then CHR ''-'' # str_nat (nat (- i)) else str_nat (nat i))"

section \<open>The attendance table\<close>

text \<open>
  \<^verbatim>\<open>
  CREATE TABLE IF NOT EXISTS attendance (
      id INTEGER PRIMARY KEY AUTOINCREMENT,
      employee_id TEXT NOT NULL,
      action TEXT NOT NULL,
      timestamp TEXT NOT NULL,
      latitude REAL,
      longitude REAL
  );
  \<close>
  The driver binds \<^verbatim>\<open>None\<close>, integers of 64 bits (a \<^verbatim>\<open>bool\<close> is an integer), floats and
  strings that have a UTF-8 encoding; it raises on any other type, on a larger integer
  and on a string with a lone surrogate. SQLite stores a NaN as NULL. A TEXT column turns numbers into text and a REAL column turns integers and
  numeric text into floats; text that is no number stays text. These conversions of the
  database engine are parameters of the model.
\<close>

datatype sqlparam = SNull | SInt int | SReal pyfloat | SText string

fun bind_param :: "pyval \<Rightarrow> pyerror + sqlparam" where
  "bind_param PNone = Inr SNull"
| "bind_param (PBool b) = Inr (SInt (if b then 1 else 0))"
| "bind_param (PInt n) =
     (if - (2 ^ 63) \<le> n \<and> n < 2 ^ 63 then Inr (SInt n) else Inl OverflowError)"
| "bind_param (PFloat x) = Inr (if float_is_nan x then SNull else SReal x)"
| "bind_param (PStr s) = Inr (SText s)"
| "bind_param (PSurrogateStr cps) = Inl UnicodeEncodeError"
| "bind_param (PList xs) = Inl ProgrammingError"
| "bind_param (PDict kvs) = Inl ProgrammingError"

record platform =
  float_of_int :: "int \<Rightarrow> pyfloat"
  real_of_text :: "string \<Rightarrow> pyfloat option"
  text_of_real :: "pyfloat \<Rightarrow> string"
  repr_float :: "pyfloat \<Rightarrow> string"

datatype realcol = RNull | RReal pyfloat | RText string

fun text_not_null :: "platform \<Rightarrow> sqlparam \<Rightarrow> pyerror + string" where
  "text_not_null pf SNull = Inl IntegrityError"
| "text_not_null pf (SInt n) = Inr (str_int n)"
| "text_not_null pf (SReal x) = Inr (text_of_real pf x)"
| "text_not_null pf (SText s) = Inr s"

fun real_affinity :: "platform \<Rightarrow> sqlparam \<Rightarrow> realcol" where
  "real_affinity pf SNull = RNull"
| "real_affinity pf (SInt n) = RReal (float_of_int pf n)"
| "real_affinity pf (SReal x) = RReal x"
| "real_affinity pf (SText s) =
     (case real_of_text pf s of Some x \<Rightarrow> RReal x | None \<Rightarrow> RText s)"

record row =
  rid :: nat
  employee_id :: string
  action :: string
  timestamp :: string
  latitude :: realcol
  longitude :: realcol

text \<open>
  The database file is the rows of the table in order of insertion, the largest row id
  handed out so far (SQLite keeps it in \<^verbatim>\<open>sqlite_sequence\<close>), and whether a connection
  that a handler abandoned holds the write lock. \<^verbatim>\<open>init_db\<close> creates the table, empty,
  if the database file has none.
\<close>

record db =
  rows :: "row list"
  seq :: nat
  locked :: bool

definition init_db :: "db option \<Rightarrow> db" where
  "init_db existing =
     (case existing of None \<Rightarrow> \<lparr>rows = [], seq = 0, locked = False\<rparr> | Some d \<Rightarrow> d)"

definition next_rowid :: "db \<Rightarrow> nat" where
  "next_rowid d = Suc (max (seq d) (fold max (map rid (rows d)) 0))"

text \<open>
  \<^verbatim>\<open>
  conn = sqlite3.connect(DB_PATH)
  cur = conn.cursor()
  cur.execute(
      'INSERT INTO attendance (employee_id, action, timestamp, latitude, longitude) VALUES (?, ?, ?, ?, ?)',
      (employee_id, action, timestamp, latitude, longitude))
  conn.commit()
  conn.close()
  \<close>
  The driver binds the parameters in order and raises at the first it cannot bind. Then the
  statement runs: it needs the write lock and raises when another connection holds it; it
  takes the next row id and raises at the ceiling of 2^63 - 1; it checks the three
  NOT NULL columns and raises when one is NULL. In each case the table stays as it was.
  Neither file closes the connection when \<^verbatim>\<open>execute\<close> raises. A statement that failed
  its NOT NULL check leaves its transaction open, so the abandoned connection keeps the
  write lock; the other failures leave no lock behind. The result is the exception, if
  any, with the database file afterwards.
\<close>

definition execute_insert ::
  "platform \<Rightarrow> db \<Rightarrow> pyval \<Rightarrow> pyval \<Rightarrow> pyval \<Rightarrow> pyval \<Rightarrow> pyval \<Rightarrow> pyerror option \<times> db" where
  "execute_insert pf d emp act ts lat lon =
     (case bnd (bind_param emp) (\<lambda>p1.
           bnd (bind_param act) (\<lambda>p2.
           bnd (bind_param ts) (\<lambda>p3.
           bnd (bind_param lat) (\<lambda>p4.
           bnd (bind_param lon) (\<lambda>p5. Inr (p1, p2, p3, p4, p5)))))) of
        Inl e \<Rightarrow> (Some e, d)
      | Inr (p1, p2, p3, p4, p5) \<Rightarrow>
          if locked d then (Some OperationalError, d)
          else if 2 ^ 63 \<le> next_rowid d then (Some OperationalError, d)
          else (case bnd (text_not_null pf p1) (\<lambda>c1.
                     bnd (text_not_null pf p2) (\<lambda>c2.
                     bnd (text_not_null pf p3) (\<lambda>c3. Inr (c1, c2, c3)))) of
                  Inl e \<Rightarrow> (Some e, d\<lparr>locked := True\<rparr>)
                | Inr (c1, c2, c3) \<Rightarrow>
                    (None,
                     d\<lparr>rows := rows d @
                          [\<lparr>rid = next_rowid d, employee_id = c1, action = c2, timestamp = c3,
                            latitude = real_affinity pf p4, longitude = real_affinity pf p5\<rparr>],
                       seq := next_rowid d\<rparr>)))"

text \<open>
  The lock lasts until the interpreter frees the abandoned connection, which happens, if
  at all, between two requests and at a moment the program does not choose.
\<close>

definition release :: "bool \<Rightarrow> db \<Rightarrow> db" where
  "release freed d = (if freed then d\<lparr>locked := False\<rparr> else d)"

section \<open>server.py\<close>

datatype body =
    Json pyval
  | Text string
  | ErrorPage string
  | Rendered string "row list"
  | Empty

datatype response = Response (status: nat) (headers: "(string \<times> string) list") (content: body)

type_synonym outcome = "pyerror + response"

definition json_response :: "nat \<Rightarrow> pyval \<Rightarrow> response" where
  "json_response code payload =
     Response code [(''Content-Type'', ''application/json'')] (Json payload)"

definition failure :: "string \<Rightarrow> pyval" where
  "failure msg = PDict [(''success'', PBool False), (''message'', PStr msg)]"

definition success :: "string \<Rightarrow> pyval" where
  "success msg = PDict [(''success'', PBool True), (''message'', PStr msg)]"

text \<open>
  \<^verbatim>\<open>handle_punch\<close>. The argument \<open>parsed\<close> is the result of
  \<^verbatim>\<open>json.loads(body.decode('utf-8'))\<close> on the bytes read from the request, \<open>None\<close> when
  it raises; \<open>now\<close> is \<^verbatim>\<open>datetime.utcnow().isoformat()\<close>. A value that is no
  dictionary has no \<^verbatim>\<open>get\<close>.
\<close>

definition handle_punch ::
  "platform \<Rightarrow> string \<Rightarrow> pyval option \<Rightarrow> db \<Rightarrow> outcome \<times> db" where
  "handle_punch pf now parsed d =
     (case parsed of
        None \<Rightarrow> (Inr (json_response 400 (failure ''Invalid JSON.'')), d)
      | Some (PDict kvs) \<Rightarrow>
          (let emp = dict_get kvs ''employee_id'';
               act = dict_get kvs ''action'';
               lat = dict_get kvs ''latitude'';
               lon = dict_get kvs ''longitude''
           in if \<not> truthy emp \<or> \<not> (act = PStr ''in'' \<or> act = PStr ''out'')
              then (Inr (json_response 400 (failure ''Invalid payload.'')), d)
              else (case execute_insert pf d emp act (PStr now) lat lon of
                      (Some e, d') \<Rightarrow> (Inl e, d')
                    | (None, d') \<Rightarrow>
                        (Inr (json_response 200 (success ''Punch recorded successfully.'')), d')))
      | Some _ \<Rightarrow> (Inl AttributeError, d))"


subsection \<open>Sessions\<close>

text \<open>
  \<^verbatim>\<open>sessions = {}\<close>: the session ids of the logged-in administrators, each mapped to
  \<^verbatim>\<open>True\<close>. The header arrives decoded as Latin-1, so \<^verbatim>\<open>str.strip\<close> removes the
  white space of that range.
\<close>

type_synonym sessions = "string \<rightharpoonup> bool"

definition is_space :: "char \<Rightarrow> bool" where
  "is_space c =
     (c \<in> set [CHR 0x09, CHR 0x0A, CHR 0x0B, CHR 0x0C, CHR 0x0D, CHR 0x1C, CHR 0x1D,
               CHR 0x1E, CHR 0x1F, CHR 0x20, CHR 0x85, CHR 0xA0])"

definition strip :: "string \<Rightarrow> string" where
  "strip s = rev (dropWhile is_space (rev (dropWhile is_space s)))"

fun split_on :: "char \<Rightarrow> string \<Rightarrow> string list" where
  "split_on c [] = [[]]"
| "split_on c (x # xs) =
     (if x = c then [] # split_on c xs
      else (case split_on c xs of [] \<Rightarrow> [[x]] | y # ys \<Rightarrow> (x # y) # ys))"

definition startswith :: "string \<Rightarrow> string \<Rightarrow> bool" where
  "startswith s p = (take (length p) s = p)"

text \<open>\<^verbatim>\<open>cookie.split('=', 1)[1]\<close> on a cookie that contains \<^verbatim>\<open>=\<close>.\<close>

definition after_equals :: "string \<Rightarrow> string" where
  "after_equals s = tl (dropWhile (\<lambda>c. c \<noteq> CHR ''='') s)"

fun find_session_cookie :: "string list \<Rightarrow> string option" where
  "find_session_cookie [] = None"
| "find_session_cookie (cookie # cookies) =
     (if startswith (strip cookie) ''session_id='' then Some (after_equals (strip cookie))
      else find_session_cookie cookies)"

definition get_session_id :: "string option \<Rightarrow> string option" where
  "get_session_id cookie_header =
     (case cookie_header of
        None \<Rightarrow> None
      | Some h \<Rightarrow> if h = [] then None else find_session_cookie (split_on CHR '';'' h))"

definition is_authenticated :: "sessions \<Rightarrow> string option \<Rightarrow> bool" where
  "is_authenticated ss cookie_header =
     (case get_session_id cookie_header of
        None \<Rightarrow> False
      | Some sid \<Rightarrow> sid \<noteq> [] \<and> (case ss sid of None \<Rightarrow> False | Some b \<Rightarrow> b))"

definition redirect_to_login :: response where
  "redirect_to_login = Response 302 [(''Location'', ''/admin/login'')] Empty"

subsection \<open>Reading the table\<close>

text \<open>
  \<^verbatim>\<open>SELECT ... FROM attendance ORDER BY timestamp\<close>. SQLite walks the table in the
  order of the row ids and sorts the rows by the timestamp text (bytewise, which is the
  order of \<open>string\<close> here); its sorter keeps rows with equal timestamps in the order of
  the walk, ascending or descending.
\<close>

definition table_scan :: "db \<Rightarrow> row list" where
  "table_scan d = sort_key rid (rows d)"

definition select_order_by_timestamp :: "db \<Rightarrow> row list" where
  "select_order_by_timestamp d = sort_key timestamp (table_scan d)"

definition select_order_by_timestamp_desc :: "db \<Rightarrow> row list" where
  "select_order_by_timestamp_desc d = rev (sort_key timestamp (rev (table_scan d)))"

text \<open>How an f-string shows a value read from a REAL column.\<close>

fun show_real :: "platform \<Rightarrow> string \<Rightarrow> realcol \<Rightarrow> string" where
  "show_real pf absent RNull = absent"
| "show_real pf absent (RReal x) = repr_float pf x"
| "show_real pf absent (RText s) = s"

fun join :: "string \<Rightarrow> string list \<Rightarrow> string" where
  "join sep [] = []"
| "join sep [x] = x"
| "join sep (x # y # ys) = x @ sep @ join sep (y # ys)"

subsection \<open>Pages\<close>

text \<open>
  The files on disk are a parameter: the templates by name, the test of
  \<^verbatim>\<open>serve_static\<close> that a path stays inside the static directory, and the file
  server of \<^verbatim>\<open>SimpleHTTPRequestHandler\<close> behind it.
\<close>

record site =
  templates :: "string \<rightharpoonup> string"
  inside_static :: "string \<Rightarrow> bool"
  static_file :: "string \<Rightarrow> response"

definition send_error :: "nat \<Rightarrow> string \<Rightarrow> response" where
  "send_error code msg = Response code [] (ErrorPage msg)"

definition html_response :: "string \<Rightarrow> response" where
  "html_response page = Response 200 [(''Content-Type'', ''text/html; charset=utf-8'')] (Text page)"

definition serve_static :: "site \<Rightarrow> string \<Rightarrow> response" where
  "serve_static st path =
     (if \<not> inside_static st path then send_error 403 ''Forbidden'' else static_file st path)"

definition serve_template :: "site \<Rightarrow> string \<Rightarrow> response" where
  "serve_template st template_name =
     (case templates st template_name of
        None \<Rightarrow> send_error 404 ''Template not found''
      | Some page \<Rightarrow> html_response page)"

definition placeholder :: string where
  "placeholder = ''<!-- Records will be injected by the server -->''"

text \<open>\<^verbatim>\<open>content.replace(placeholder, rows_html)\<close>: every occurrence, left to right.\<close>

function inject_rows :: "string \<Rightarrow> string \<Rightarrow> string" where
  "inject_rows rows_html page =
     (if page = [] then []
      else if startswith page placeholder
        then rows_html @ inject_rows rows_html (drop (length placeholder) page)
        else hd page # inject_rows rows_html (tl page))"
  by pat_completeness auto
termination
  by (relation "measure (\<lambda>(r, p). length p)") (auto simp: placeholder_def)

declare inject_rows.simps [simp del]

definition table_row :: "platform \<Rightarrow> row \<Rightarrow> string" where
  "table_row pf r =
     ''<tr>'' @
     ''<td>'' @ str_nat (rid r) @ ''</td>'' @
     ''<td>'' @ employee_id r @ ''</td>'' @
     ''<td>'' @ action r @ ''</td>'' @
     ''<td>'' @ timestamp r @ ''</td>'' @
     ''<td>'' @ show_real pf ''-'' (latitude r) @ ''</td>'' @
     ''<td>'' @ show_real pf ''-'' (longitude r) @ ''</td>'' @
     ''</tr>''"

text \<open>\<^verbatim>\<open>serve_admin\<close>. \<^verbatim>\<open>open\<close> raises when the template is missing.\<close>

definition serve_admin ::
  "site \<Rightarrow> platform \<Rightarrow> sessions \<Rightarrow> string option \<Rightarrow> db \<Rightarrow> outcome" where
  "serve_admin st pf ss cookie_header d =
     (if \<not> is_authenticated ss cookie_header then Inr redirect_to_login
      else (let records = select_order_by_timestamp_desc d
            in case templates st ''admin.html'' of
                 None \<Rightarrow> Inl FileNotFoundError
               | Some page \<Rightarrow>
                   Inr (html_response
                          (inject_rows (concat (map (table_row pf) records)) page))))"

subsection \<open>Login and logout\<close>

text \<open>
  \<^verbatim>\<open>os.environ.get(key, default)\<close>, and \<^verbatim>\<open>params.get(key, [''])[0]\<close> on the result of
  \<^verbatim>\<open>parse_qs\<close>: the list of decoded pairs with a non-blank value, in the order of the
  body; \<^verbatim>\<open>parse_qs\<close> collects the values of a key in that order.
\<close>

definition environ_get :: "(string \<rightharpoonup> string) \<Rightarrow> string \<Rightarrow> string \<Rightarrow> string" where
  "environ_get env key dflt = (case env key of None \<Rightarrow> dflt | Some v \<Rightarrow> v)"

definition first_value :: "(string \<times> string) list \<Rightarrow> string \<Rightarrow> string" where
  "first_value params key = (case map_of params key of None \<Rightarrow> [] | Some v \<Rightarrow> v)"

text \<open>
  \<^verbatim>\<open>handle_login\<close>; \<open>uuid\<close> is \<^verbatim>\<open>str(uuid.uuid4())\<close>. The argument \<open>decoded\<close> is
  the body after \<^verbatim>\<open>parse_qs(body.decode('utf-8'))\<close>, \<open>None\<close> when the bytes are no
  UTF-8: the handler decodes outside any \<^verbatim>\<open>try\<close>, so the exception leaves it.
\<close>

definition handle_login ::
  "(string \<rightharpoonup> string) \<Rightarrow> string \<Rightarrow> (string \<times> string) list option \<Rightarrow> sessions
     \<Rightarrow> outcome \<times> sessions" where
  "handle_login env uuid decoded ss =
     (case decoded of
        None \<Rightarrow> (Inl UnicodeDecodeError, ss)
      | Some params \<Rightarrow>
          (let username = first_value params ''username'';
               password = first_value params ''password'';
               admin_username = environ_get env ''ADMIN_USERNAME'' ''admin'';
               admin_password = environ_get env ''ADMIN_PASSWORD'' ''admin123''
           in if username = admin_username \<and> password = admin_password
              then (Inr (Response 302
                           [(''Location'', ''/admin''),
                            (''Set-Cookie'', ''session_id='' @ uuid @ ''; HttpOnly; Path=/'')]
                           Empty),
                    ss(uuid \<mapsto> True))
              else (Inr (Response 302 [(''Location'', ''/admin/login?error=1'')] Empty), ss)))"

definition handle_logout :: "sessions \<Rightarrow> string option \<Rightarrow> response \<times> sessions" where
  "handle_logout ss cookie_header =
     (Response 302
        [(''Set-Cookie'', ''session_id=deleted; expires=Thu, 01 Jan 1970 00:00:00 GMT; Path=/''),
         (''Location'', ''/admin/login'')] Empty,
      (case get_session_id cookie_header of
         None \<Rightarrow> ss
       | Some sid \<Rightarrow> if sid \<noteq> [] \<and> sid \<in> dom ss then ss(sid := None) else ss))"

subsection \<open>CSV export\<close>

definition csv_header :: string where
  "csv_header = ''Employee ID,Action,Timestamp (UTC),Latitude,Longitude''"

text \<open>
  \<^verbatim>\<open>
  lat_val = '' if lat is None else lat
  lon_val = '' if lon is None else lon
  csv_lines.append(f'{emp_id},{action},{ts},{lat_val},{lon_val}')
  \<close>
\<close>

definition csv_line :: "platform \<Rightarrow> row \<Rightarrow> string" where
  "csv_line pf r =
     employee_id r @ '','' @ action r @ '','' @ timestamp r @ '','' @
     show_real pf [] (latitude r) @ '','' @ show_real pf [] (longitude r)"

definition csv_data :: "platform \<Rightarrow> row list \<Rightarrow> string" where
  "csv_data pf records = join [CHR 0x0A] (csv_header # map (csv_line pf) records)"

text \<open>
  \<^verbatim>\<open>handle_export\<close>; \<open>stamp\<close> is \<^verbatim>\<open>datetime.utcnow().strftime("%Y%m%d%H%M%S")\<close>.
\<close>

definition handle_export ::
  "platform \<Rightarrow> string \<Rightarrow> sessions \<Rightarrow> string option \<Rightarrow> db \<Rightarrow> response" where
  "handle_export pf stamp ss cookie_header d =
     (if \<not> is_authenticated ss cookie_header then redirect_to_login
      else Response 200
             [(''Content-Type'', ''text/csv''),
              (''Content-Disposition'',
                 ''attachment; filename='' @ [CHR 0x22] @ ''attendance_'' @ stamp @ ''.csv''
                   @ [CHR 0x22])]
             (Text (csv_data pf (select_order_by_timestamp d))))"

subsection \<open>Dispatch\<close>

text \<open>
  What a request brings, and what the process meets outside while it handles one: the
  clock in both formats, the fresh session id, and whether the interpreter has by then
  freed the connections that earlier handlers abandoned. \<open>path\<close> is
  \<^verbatim>\<open>urlparse(self.path).path\<close>; \<open>json_body\<close> and \<open>form\<close> are the body as
  \<^verbatim>\<open>json.loads(body.decode('utf-8'))\<close> and \<^verbatim>\<open>parse_qs(body.decode('utf-8'))\<close> read
  it, \<open>None\<close> when that raises. Both handlers of a POST are taken from the point where
  the body has been read.
\<close>

record request =
  path :: string
  cookie :: "string option"
  json_body :: "pyval option"
  form :: "(string \<times> string) list option"

record inputs =
  now_iso :: string
  now_stamp :: string
  uuid4 :: string
  freed :: bool

record server =
  store :: db
  logged_in :: sessions

definition do_GET ::
  "site \<Rightarrow> platform \<Rightarrow> inputs \<Rightarrow> request \<Rightarrow> server \<Rightarrow> outcome \<times> server" where
  "do_GET st pf inp req s =
     (if startswith (path req) ''/static/'' then (Inr (serve_static st (path req)), s)
      else if path req = ''/'' \<or> path req = ''/index.html''
        then (Inr (serve_template st ''index.html''), s)
      else if path req = ''/admin/login'' then (Inr (serve_template st ''admin_login.html''), s)
      else if path req = ''/admin''
        then (serve_admin st pf (logged_in s) (cookie req) (store s), s)
      else if path req = ''/admin/logout''
        then (case handle_logout (logged_in s) (cookie req) of
                (resp, ss) \<Rightarrow> (Inr resp, s\<lparr>logged_in := ss\<rparr>))
      else if path req = ''/admin/export''
        then (Inr (handle_export pf (now_stamp inp) (logged_in s) (cookie req) (store s)), s)
      else (Inr (send_error 404 ''Not Found''), s))"

definition do_POST ::
  "(string \<rightharpoonup> string) \<Rightarrow> platform \<Rightarrow> inputs \<Rightarrow> request \<Rightarrow> server \<Rightarrow> outcome \<times> server" where
  "do_POST env pf inp req s =
     (if path req = ''/punch''
        then (case handle_punch pf (now_iso inp) (json_body req) (store s) of
                (out, d) \<Rightarrow> (out, s\<lparr>store := d\<rparr>))
      else if path req = ''/admin/login''
        then (case handle_login env (uuid4 inp) (form req) (logged_in s) of
                (out, ss) \<Rightarrow> (out, s\<lparr>logged_in := ss\<rparr>))
      else (Inr (send_error 404 ''Not Found''), s))"


section \<open>app.py\<close>

subsection \<open>Punch\<close>

text \<open>
  \<^verbatim>\<open>request.get_json()\<close> with its default arguments. Flask parses the body only when the
  content type says JSON (\<open>is_json\<close>); otherwise it returns \<^verbatim>\<open>None\<close> (Flask 2.0) or
  raises 400 (2.1 and 2.2) or 415 (from 2.3 on). A body that does not parse raises 400.
  The argument \<open>parsed\<close> is the result of \<^verbatim>\<open>json.loads\<close> on the bytes of the body,
  \<open>None\<close> when it raises. That is not the reading of \<^verbatim>\<open>server.py\<close>: on the bytes,
  \<^verbatim>\<open>json.loads\<close> finds the encoding itself and accepts a byte order mark, UTF-16 and
  UTF-32, which \<^verbatim>\<open>json.loads(body.decode('utf-8'))\<close> refuses.
\<close>

datatype flask_version = Flask_2_0 | Flask_2_1 | Flask_2_3

definition get_json :: "flask_version \<Rightarrow> bool \<Rightarrow> pyval option \<Rightarrow> pyerror + pyval" where
  "get_json fv is_json parsed =
     (if \<not> is_json
      then (case fv of
              Flask_2_0 \<Rightarrow> Inr PNone
            | Flask_2_1 \<Rightarrow> Inl (HTTPException 400)
            | Flask_2_3 \<Rightarrow> Inl (HTTPException 415))
      else (case parsed of None \<Rightarrow> Inl (HTTPException 400) | Some v \<Rightarrow> Inr v))"

definition punch ::
  "flask_version \<Rightarrow> platform \<Rightarrow> string \<Rightarrow> bool \<Rightarrow> pyval option \<Rightarrow> db \<Rightarrow> outcome \<times> db" where
  "punch fv pf now is_json parsed d =
     (case get_json fv is_json parsed of
        Inl e \<Rightarrow> (Inl e, d)
      | Inr (PDict kvs) \<Rightarrow>
          (let emp = dict_get kvs ''employee_id'';
               act = dict_get kvs ''action'';
               lat = dict_get kvs ''latitude'';
               lon = dict_get kvs ''longitude''
           in if \<not> truthy emp \<or> \<not> truthy act
              then (Inr (json_response 400 (failure ''Employee ID and action are required.'')), d)
              else if \<not> (act = PStr ''in'' \<or> act = PStr ''out'')
              then (Inr (json_response 400 (failure ''Invalid action specified.'')), d)
              else (case execute_insert pf d emp act (PStr now) lat lon of
                      (Some e, d') \<Rightarrow> (Inl e, d')
                    | (None, d') \<Rightarrow>
                        (Inr (json_response 200 (success ''Punch recorded successfully.'')), d')))
      | Inr _ \<Rightarrow> (Inl AttributeError, d))"

subsection \<open>The administrator\<close>

text \<open>
  Flask keeps the session in a signed cookie: the request brings it, the response takes
  it back. The views use the key \<^verbatim>\<open>admin_logged_in\<close>, and \<^verbatim>\<open>flash\<close> appends a
  (category, message) pair. The password hashing of werkzeug is a parameter;
  \<^verbatim>\<open>check_password_hash\<close> encodes the password it is given, which raises on \<^verbatim>\<open>None\<close>.
\<close>

record flask_session =
  admin_logged_in :: "pyval option"
  flashes :: "(string \<times> string) list"

record hasher =
  generate_password_hash :: "string \<Rightarrow> string"
  check_password_hash :: "string \<Rightarrow> string \<Rightarrow> bool"

definition redirect :: "string \<Rightarrow> response" where
  "redirect location = Response 302 [(''Location'', location)] Empty"

definition render_template :: "string \<Rightarrow> row list \<Rightarrow> response" where
  "render_template name records = Response 200 [] (Rendered name records)"

definition session_logged_in :: "flask_session \<Rightarrow> bool" where
  "session_logged_in sess = (case admin_logged_in sess of None \<Rightarrow> False | Some v \<Rightarrow> truthy v)"

definition admin_login ::
  "hasher \<Rightarrow> (string \<rightharpoonup> string) \<Rightarrow> bool \<Rightarrow> (string \<rightharpoonup> string) \<Rightarrow> flask_session
     \<Rightarrow> outcome \<times> flask_session" where
  "admin_login h env is_post form_data sess =
     (if is_post
      then (let username = form_data ''username'';
                password = form_data ''password'';
                ADMIN_USERNAME = environ_get env ''ADMIN_USERNAME'' ''admin'';
                ADMIN_PASSWORD_HASH =
                  generate_password_hash h (environ_get env ''ADMIN_PASSWORD'' ''admin123'');
                invalid = (Inr (redirect ''/admin/login''),
                           sess\<lparr>flashes := flashes sess @ [(''error'', ''Invalid credentials'')]\<rparr>)
            in if username = Some ADMIN_USERNAME
               then (case password of
                       None \<Rightarrow> (Inl AttributeError, sess)
                     | Some p \<Rightarrow>
                         if check_password_hash h ADMIN_PASSWORD_HASH p
                         then (Inr (redirect ''/admin''),
                               sess\<lparr>admin_logged_in := Some (PBool True)\<rparr>)
                         else invalid)
               else invalid)
      else (Inr (render_template ''admin_login.html'' []), sess))"

definition admin_dashboard :: "flask_session \<Rightarrow> db \<Rightarrow> response" where
  "admin_dashboard sess d =
     (if \<not> session_logged_in sess then redirect ''/admin/login''
      else render_template ''admin.html'' (select_order_by_timestamp_desc d))"

definition admin_logout :: "flask_session \<Rightarrow> response \<times> flask_session" where
  "admin_logout sess = (redirect ''/admin/login'', sess\<lparr>admin_logged_in := None\<rparr>)"

subsection \<open>CSV export\<close>

text \<open>
  \<^verbatim>\<open>csv.writer\<close> in its default dialect: a field is quoted when it holds the
  delimiter, the quote character or a character of the line terminator, a quote inside
  is doubled, a row of one empty field is written as two quotes, and every row ends with
  carriage return and line feed. \<^verbatim>\<open>None\<close> is written as the empty field.
\<close>

definition csv_special :: "char \<Rightarrow> bool" where
  "csv_special c = (c = CHR '','' \<or> c = CHR 0x22 \<or> c = CHR 0x0D \<or> c = CHR 0x0A)"

definition csv_field :: "string \<Rightarrow> string" where
  "csv_field s =
     (if list_ex csv_special s
      then [CHR 0x22] @ concat (map (\<lambda>c. if c = CHR 0x22 then [c, c] else [c]) s) @ [CHR 0x22]
      else s)"

definition writerow :: "string list \<Rightarrow> string" where
  "writerow cells =
     (if cells = [[]] then [CHR 0x22, CHR 0x22] else join '','' (map csv_field cells))
     @ [CHR 0x0D, CHR 0x0A]"

definition row_fields :: "platform \<Rightarrow> row \<Rightarrow> string list" where
  "row_fields pf r =
     [employee_id r, action r, timestamp r,
      show_real pf [] (latitude r), show_real pf [] (longitude r)]"

definition export_csv :: "platform \<Rightarrow> string \<Rightarrow> flask_session \<Rightarrow> db \<Rightarrow> response" where
  "export_csv pf stamp sess d =
     (if \<not> session_logged_in sess then redirect ''/admin/login''
      else Response 200
             [(''Content-Type'', ''text/csv; charset=utf-8''),
              (''Content-Disposition'', ''attachment; filename=attendance_'' @ stamp @ ''.csv'')]
             (Text (writerow [''Employee ID'', ''Action'', ''Timestamp (UTC)'', ''Latitude'',
                              ''Longitude'']
                    @ concat (map (\<lambda>r. writerow (row_fields pf r))
                                (select_order_by_timestamp d)))))"

subsection \<open>The views together\<close>

datatype view =
    Index
  | Punch bool "pyval option"
  | AdminLogin bool "string \<rightharpoonup> string"
  | AdminDashboard
  | AdminLogout
  | ExportCsv

definition call_view ::
  "flask_version \<Rightarrow> hasher \<Rightarrow> (string \<rightharpoonup> string) \<Rightarrow> platform \<Rightarrow> inputs \<Rightarrow> view
     \<Rightarrow> flask_session \<Rightarrow> db \<Rightarrow> outcome \<times> flask_session \<times> db" where
  "call_view fv h env pf inp v sess d =
     (case v of
        Index \<Rightarrow> (Inr (render_template ''index.html'' []), sess, d)
      | Punch is_json parsed \<Rightarrow>
          (case punch fv pf (now_iso inp) is_json parsed d of (out, d') \<Rightarrow> (out, sess, d'))
      | AdminLogin is_post form_data \<Rightarrow>
          (case admin_login h env is_post form_data sess of (out, sess') \<Rightarrow> (out, sess', d))
      | AdminDashboard \<Rightarrow> (Inr (admin_dashboard sess d), sess, d)
      | AdminLogout \<Rightarrow> (case admin_logout sess of (resp, sess') \<Rightarrow> (Inr resp, sess', d))
      | ExportCsv \<Rightarrow> (Inr (export_csv pf (now_stamp inp) sess d), sess, d))"


section \<open>Runs and observations\<close>

text \<open>
  The two methods that \<^verbatim>\<open>AttendanceHandler\<close> defines, and a run of the server over a
  list of requests, each with what the process met outside while handling it. A handler
  that raises leaves the state as it was when it raised. Before a request is handled,
  the write lock is gone if the interpreter has freed the abandoned connections.
\<close>

datatype http_request = Get request | Post request

definition handle ::
  "site \<Rightarrow> (string \<rightharpoonup> string) \<Rightarrow> platform \<Rightarrow> inputs \<Rightarrow> http_request \<Rightarrow> server
     \<Rightarrow> outcome \<times> server" where
  "handle st env pf inp r s =
     (case r of Get req \<Rightarrow> do_GET st pf inp req s | Post req \<Rightarrow> do_POST env pf inp req s)"

fun serve_all ::
  "site \<Rightarrow> (string \<rightharpoonup> string) \<Rightarrow> platform \<Rightarrow> (inputs \<times> http_request) list \<Rightarrow> server
     \<Rightarrow> server" where
  "serve_all st env pf [] s = s"
| "serve_all st env pf ((inp, r) # rs) s =
     serve_all st env pf rs
       (snd (handle st env pf inp r (s\<lparr>store := release (freed inp) (store s)\<rparr>)))"

text \<open>
  A run of the Flask application: each call of a view comes with the session cookie of
  its client.
\<close>

fun call_all ::
  "flask_version \<Rightarrow> hasher \<Rightarrow> (string \<rightharpoonup> string) \<Rightarrow> platform
     \<Rightarrow> (inputs \<times> view \<times> flask_session) list \<Rightarrow> db \<Rightarrow> db" where
  "call_all fv h env pf [] d = d"
| "call_all fv h env pf ((inp, v, sess) # cs) d =
     call_all fv h env pf cs
       (snd (snd (call_view fv h env pf inp v sess (release (freed inp) d))))"

text \<open>
  The status the client sees: that of the response, or the code of the HTTP exception
  that Flask turns into a response; any other exception stays an error. A punch
  succeeded when the payload says so.
\<close>

fun http_status :: "outcome \<Rightarrow> pyerror + nat" where
  "http_status (Inr resp) = Inr (status resp)"
| "http_status (Inl (HTTPException c)) = Inr c"
| "http_status (Inl e) = Inl e"


text \<open>
  To run the handlers on a request the conversions of the database engine have to be
  fixed. This instance is right on the numbers 0, 1, 1.5 and 2.5 and arbitrary on all
  others.
\<close>

definition example_platform :: platform where
  "example_platform =
     \<lparr>float_of_int = (\<lambda>n. if n = 1 then 0x3FF0000000000000 else 0),
      real_of_text =
        (\<lambda>s. if s = ''1.5'' then Some 0x3FF8000000000000
              else if s = ''2.5'' then Some 0x4004000000000000 else None),
      text_of_real =
        (\<lambda>x. if x = 0x3FF0000000000000 then ''1.0''
              else if x = 0x3FF8000000000000 then ''1.5''
              else if x = 0x4004000000000000 then ''2.5'' else ''0.0''),
      repr_float =
        (\<lambda>x. if x = 0x3FF0000000000000 then ''1.0''
              else if x = 0x3FF8000000000000 then ''1.5''
              else if x = 0x4004000000000000 then ''2.5'' else ''0.0'')\<rparr>"

text \<open>
  In the same way, a site with the three templates, a stand-in for the password hashing
  of werkzeug, and what the process meets at one moment.
\<close>

definition example_site :: site where
  "example_site =
     \<lparr>templates =
        [''index.html'' \<mapsto> ''<h1>Punch</h1>'',
         ''admin_login.html'' \<mapsto> ''<h1>Login</h1>'',
         ''admin.html'' \<mapsto> ''<table><!-- Records will be injected by the server --></table>''],
      inside_static = (\<lambda>p. True),
      static_file = (\<lambda>p. Response 200 [] (Text []))\<rparr>"

definition example_hasher :: hasher where
  "example_hasher =
     \<lparr>generate_password_hash = (\<lambda>p. ''salted:'' @ rev p),
      check_password_hash = (\<lambda>hash p. hash = ''salted:'' @ rev p)\<rparr>"

definition example_inputs :: inputs where
  "example_inputs =
     \<lparr>now_iso = ''2024-01-01T09:00:00.000001'', now_stamp = ''20240101090000'',
      uuid4 = ''0b0e7d1c-5c0a-4c59-9d5e-2f1f3a6b7c8d'', freed = False\<rparr>"

section \<open>Properties\<close>

subsection \<open>Auxiliary facts\<close>

lemma bnd_simps [simp]: "bnd (Inl e) f = Inl e" "bnd (Inr x) f = f x"
  by (simp_all add: bnd_def)






lemma execute_insert_rows:
  "\<exists>new. rows (snd (execute_insert pf d emp act ts lat lon)) = rows d @ new"
  by (auto simp: execute_insert_def split: sum.splits prod.splits)

lemma handle_punch_rows:
  "\<exists>new. rows (snd (handle_punch pf now parsed d)) = rows d @ new"
proof -
  have "\<exists>new. rows (snd (case execute_insert pf d emp act ts lat lon of
                             (Some e, d') \<Rightarrow> (Inl e, d')
                           | (None, d') \<Rightarrow> (Inr resp, d'))) = rows d @ new"
    for emp act ts lat lon and resp :: response
    using execute_insert_rows [of pf d emp act ts lat lon]
    by (auto split: prod.splits option.splits)
  then show ?thesis
    by (auto simp: handle_punch_def Let_def split: option.splits pyval.splits)
qed

lemma punch_rows:
  "\<exists>new. rows (snd (punch fv pf now j parsed d)) = rows d @ new"
proof -
  have "\<exists>new. rows (snd (case execute_insert pf d emp act ts lat lon of
                             (Some e, d') \<Rightarrow> (Inl e, d')
                           | (None, d') \<Rightarrow> (Inr resp, d'))) = rows d @ new"
    for emp act ts lat lon and resp :: response
    using execute_insert_rows [of pf d emp act ts lat lon]
    by (auto split: prod.splits option.splits)
  then show ?thesis
    by (auto simp: punch_def Let_def split: option.splits pyval.splits sum.splits)
qed

subsection \<open>Validation of a punch\<close>




subsection \<open>What a punch stores\<close>





subsection \<open>Truthiness is the only test of the employee id\<close>





subsection \<open>The two implementations of the punch\<close>




subsection \<open>Pages of the administrator\<close>

text \<open>
  Claim C5. A request for \<^verbatim>\<open>/admin\<close> or \<^verbatim>\<open>/admin/export\<close> whose cookie names no
  registered session (no session cookie at all, or an id that is not in the session
  table) is answered by \<^verbatim>\<open>server.py\<close> with status 302 and the location
  \<^verbatim>\<open>/admin/login\<close>, and nothing changes; so is, in \<^verbatim>\<open>app.py\<close>, a call of the two views
  with a session that holds no login. The status is neither 401 nor 403.
\<close>

theorem unauthenticated_redirect:
  "((path req = ''/admin'' \<or> path req = ''/admin/export'')
     \<and> (\<forall>sid. get_session_id (cookie req) = Some sid \<longrightarrow> logged_in s sid = None)
    \<longrightarrow> do_GET st pf inp req s
         = (Inr (Response 302 [(''Location'', ''/admin/login'')] Empty), s)
       \<and> http_status (fst (do_GET st pf inp req s)) \<noteq> Inr 401
       \<and> http_status (fst (do_GET st pf inp req s)) \<noteq> Inr 403)
   \<and> ((v = AdminDashboard \<or> v = ExportCsv) \<and> admin_logged_in sess = None
    \<longrightarrow> call_view fv h env pf inp v sess d
         = (Inr (Response 302 [(''Location'', ''/admin/login'')] Empty), sess, d)
       \<and> http_status (fst (call_view fv h env pf inp v sess d)) \<noteq> Inr 401
       \<and> http_status (fst (call_view fv h env pf inp v sess d)) \<noteq> Inr 403)"
proof (intro conjI)
  show "(path req = ''/admin'' \<or> path req = ''/admin/export'')
     \<and> (\<forall>sid. get_session_id (cookie req) = Some sid \<longrightarrow> logged_in s sid = None)
    \<longrightarrow> do_GET st pf inp req s
         = (Inr (Response 302 [(''Location'', ''/admin/login'')] Empty), s)
       \<and> http_status (fst (do_GET st pf inp req s)) \<noteq> Inr 401
       \<and> http_status (fst (do_GET st pf inp req s)) \<noteq> Inr 403"
  proof (intro impI)
    assume a: "(path req = ''/admin'' \<or> path req = ''/admin/export'')
     \<and> (\<forall>sid. get_session_id (cookie req) = Some sid \<longrightarrow> logged_in s sid = None)"
    then have na: "\<not> is_authenticated (logged_in s) (cookie req)"
      by (auto simp: is_authenticated_def split: option.splits)
    from a have "do_GET st pf inp req s = (Inr redirect_to_login, s)"
    proof (elim conjE disjE)
      assume "path req = ''/admin''"
      then show ?thesis using na
        by (simp add: do_GET_def startswith_def serve_admin_def)
    next
      assume "path req = ''/admin/export''"
      then show ?thesis using na
        by (simp add: do_GET_def startswith_def handle_export_def)
    qed
    then show "do_GET st pf inp req s
         = (Inr (Response 302 [(''Location'', ''/admin/login'')] Empty), s)
       \<and> http_status (fst (do_GET st pf inp req s)) \<noteq> Inr 401
       \<and> http_status (fst (do_GET st pf inp req s)) \<noteq> Inr 403"
      by (simp add: redirect_to_login_def)
  qed
  show "(v = AdminDashboard \<or> v = ExportCsv) \<and> admin_logged_in sess = None
    \<longrightarrow> call_view fv h env pf inp v sess d
         = (Inr (Response 302 [(''Location'', ''/admin/login'')] Empty), sess, d)
       \<and> http_status (fst (call_view fv h env pf inp v sess d)) \<noteq> Inr 401
       \<and> http_status (fst (call_view fv h env pf inp v sess d)) \<noteq> Inr 403"
    by (auto simp: call_view_def admin_dashboard_def export_csv_def session_logged_in_def
        redirect_def)
qed

theorem unauthenticated_redirect_witness:
  "get_session_id (Some ''theme=dark; session_id=abc'') = Some ''abc''
   \<and> do_GET example_site example_platform example_inputs
        \<lparr>path = ''/admin/export'', cookie = Some ''theme=dark; session_id=abc'',
         json_body = None, form = Some []\<rparr>
        \<lparr>store = init_db None, logged_in = [''xyz'' \<mapsto> True]\<rparr>
      = (Inr (Response 302 [(''Location'', ''/admin/login'')] Empty),
         \<lparr>store = init_db None, logged_in = [''xyz'' \<mapsto> True]\<rparr>)
   \<and> call_view Flask_2_3 example_hasher Map.empty example_platform example_inputs
        AdminDashboard \<lparr>admin_logged_in = None, flashes = []\<rparr> (init_db None)
      = (Inr (Response 302 [(''Location'', ''/admin/login'')] Empty),
         \<lparr>admin_logged_in = None, flashes = []\<rparr>, init_db None)"
proof -
  have g: "get_session_id (Some ''theme=dark; session_id=abc'') = Some ''abc''"
    by (simp add: get_session_id_def startswith_def strip_def is_space_def after_equals_def)
  show ?thesis
    using g unauthenticated_redirect
      [where req = "\<lparr>path = ''/admin/export'', cookie = Some ''theme=dark; session_id=abc'',
                     json_body = None, form = Some []\<rparr>"
         and s = "\<lparr>store = init_db None, logged_in = [''xyz'' \<mapsto> True]\<rparr>"
         and st = example_site and pf = example_platform and inp = example_inputs
         and v = AdminDashboard and sess = "\<lparr>admin_logged_in = None, flashes = []\<rparr>"
         and fv = Flask_2_3 and h = example_hasher and env = Map.empty
         and d = "init_db None"]
    by simp
qed


subsection \<open>Login\<close>

text \<open>
  Claim C4 asks that every failing login is answered with a redirect to the login form
  that carries only a generic error indicator. \<^verbatim>\<open>server.py\<close> reads a missing field as
  the empty string and so does that for every body it can decode. \<^verbatim>\<open>app.py\<close> hands
  \<^verbatim>\<open>request.form.get('password')\<close> to \<^verbatim>\<open>check_password_hash\<close> as soon as the username
  is the configured one: a login with that username and no password field raises
  \<^verbatim>\<open>AttributeError\<close> there, while the same request with any other username gets the
  redirect, so the answer tells whether the username was right. No login is recorded
  either way. The handler of \<^verbatim>\<open>server.py\<close>, for its part, sends no response to a body
  that is not UTF-8.
\<close>

theorem app_login_missing_password:
  "admin_login example_hasher [''ADMIN_USERNAME'' \<mapsto> ''root''] True
     [''username'' \<mapsto> ''root''] \<lparr>admin_logged_in = None, flashes = []\<rparr>
   = (Inl AttributeError, \<lparr>admin_logged_in = None, flashes = []\<rparr>)
   \<and> admin_login example_hasher [''ADMIN_USERNAME'' \<mapsto> ''root''] True
       [''username'' \<mapsto> ''bob''] \<lparr>admin_logged_in = None, flashes = []\<rparr>
     = (Inr (Response 302 [(''Location'', ''/admin/login'')] Empty),
        \<lparr>admin_logged_in = None, flashes = [(''error'', ''Invalid credentials'')]\<rparr>)
   \<and> admin_login example_hasher [''ADMIN_USERNAME'' \<mapsto> ''root''] True
       [''username'' \<mapsto> ''root'', ''password'' \<mapsto> ''guess'']
       \<lparr>admin_logged_in = None, flashes = []\<rparr>
     = (Inr (Response 302 [(''Location'', ''/admin/login'')] Empty),
        \<lparr>admin_logged_in = None, flashes = [(''error'', ''Invalid credentials'')]\<rparr>)
   \<and> handle_login [''ADMIN_USERNAME'' \<mapsto> ''root''] ''tok'' (Some [(''username'', ''root'')])
       Map.empty
     = (Inr (Response 302 [(''Location'', ''/admin/login?error=1'')] Empty), Map.empty)
   \<and> handle_login [''ADMIN_USERNAME'' \<mapsto> ''root''] ''tok'' (Some [(''username'', ''bob'')])
       Map.empty
     = (Inr (Response 302 [(''Location'', ''/admin/login?error=1'')] Empty), Map.empty)
   \<and> handle_login [''ADMIN_USERNAME'' \<mapsto> ''root''] ''tok'' None Map.empty
     = (Inl UnicodeDecodeError, Map.empty)"
  by (simp add: admin_login_def handle_login_def first_value_def environ_get_def Let_def
      redirect_def example_hasher_def)

text \<open>
  Claim C1 asks for a hashed comparison of the password and never a plain one.
  \<^verbatim>\<open>app.py\<close> hands the password to \<^verbatim>\<open>check_password_hash\<close>; \<^verbatim>\<open>server.py\<close> reads the
  configured password in the clear and compares the two strings with \<^verbatim>\<open>==\<close>. Run on
  the same credentials, \<^verbatim>\<open>server.py\<close> grants the login by that equality, and the view
  of \<^verbatim>\<open>app.py\<close> follows whatever the hash check says: with a check that accepts nothing it
  refuses them.
\<close>

theorem server_login_compares_plain_text:
  "handle_login [''ADMIN_PASSWORD'' \<mapsto> ''s3cret''] ''tok''
     (Some [(''username'', ''admin''), (''password'', ''s3cret'')]) Map.empty
   = (Inr (Response 302
        [(''Location'', ''/admin''), (''Set-Cookie'', ''session_id=tok; HttpOnly; Path=/'')]
        Empty),
      [''tok'' \<mapsto> True])
   \<and> admin_login
       \<lparr>generate_password_hash = (\<lambda>p. p), check_password_hash = (\<lambda>hash p. False)\<rparr>
       [''ADMIN_PASSWORD'' \<mapsto> ''s3cret''] True
       [''username'' \<mapsto> ''admin'', ''password'' \<mapsto> ''s3cret'']
       \<lparr>admin_logged_in = None, flashes = []\<rparr>
     = (Inr (Response 302 [(''Location'', ''/admin/login'')] Empty),
        \<lparr>admin_logged_in = None, flashes = [(''error'', ''Invalid credentials'')]\<rparr>)"
  by (simp add: handle_login_def admin_login_def first_value_def environ_get_def Let_def
      redirect_def)

subsection \<open>The CSV export\<close>

text \<open>
  Claim C6 asks for the header row followed by one row per record. \<^verbatim>\<open>app.py\<close> writes
  each record through \<^verbatim>\<open>csv.writer\<close>, which quotes a field that holds a line break, so
  the record stays one row. \<^verbatim>\<open>server.py\<close> pastes the fields into a line as they are:
  the one record that a punch with the employee id \<^verbatim>\<open>Ann\<close>, line feed, \<^verbatim>\<open>Lee\<close> stores
  is exported as two lines after the header, the first of them a single cell.
\<close>

theorem server_export_splits_record:
  "snd (handle_punch example_platform ''2024-01-01T09:00:00.000001''
          (Some (PDict [(''employee_id'', PStr (''Ann'' @ [CHR 0x0A] @ ''Lee'')),
                        (''action'', PStr ''in'')])) (init_db None))
   = \<lparr>rows = [\<lparr>rid = 1, employee_id = ''Ann'' @ [CHR 0x0A] @ ''Lee'', action = ''in'',
                timestamp = ''2024-01-01T09:00:00.000001'', latitude = RNull,
                longitude = RNull\<rparr>], seq = 1, locked = False\<rparr>
   \<and> content (handle_export example_platform ''20240102000000'' [''abc'' \<mapsto> True]
       (Some ''session_id=abc'')
       \<lparr>rows = [\<lparr>rid = 1, employee_id = ''Ann'' @ [CHR 0x0A] @ ''Lee'', action = ''in'',
                  timestamp = ''2024-01-01T09:00:00.000001'', latitude = RNull,
                  longitude = RNull\<rparr>], seq = 1, locked = False\<rparr>)
     = Text (''Employee ID,Action,Timestamp (UTC),Latitude,Longitude'' @ [CHR 0x0A]
             @ ''Ann'' @ [CHR 0x0A]
             @ ''Lee,in,2024-01-01T09:00:00.000001,,'')
   \<and> split_on (CHR 0x0A)
       (''Employee ID,Action,Timestamp (UTC),Latitude,Longitude'' @ [CHR 0x0A]
        @ ''Ann'' @ [CHR 0x0A] @ ''Lee,in,2024-01-01T09:00:00.000001,,'')
     = [''Employee ID,Action,Timestamp (UTC),Latitude,Longitude'', ''Ann'',
        ''Lee,in,2024-01-01T09:00:00.000001,,'']
   \<and> content (export_csv example_platform ''20240102000000''
       \<lparr>admin_logged_in = Some (PBool True), flashes = []\<rparr>
       \<lparr>rows = [\<lparr>rid = 1, employee_id = ''Ann'' @ [CHR 0x0A] @ ''Lee'', action = ''in'',
                  timestamp = ''2024-01-01T09:00:00.000001'', latitude = RNull,
                  longitude = RNull\<rparr>], seq = 1, locked = False\<rparr>)
     = Text (''Employee ID,Action,Timestamp (UTC),Latitude,Longitude'' @ [CHR 0x0D, CHR 0x0A]
             @ [CHR 0x22] @ ''Ann'' @ [CHR 0x0A] @ ''Lee'' @ [CHR 0x22]
             @ '',in,2024-01-01T09:00:00.000001,,'' @ [CHR 0x0D, CHR 0x0A])"
  by (simp add: handle_punch_def dict_get_def execute_insert_def init_db_def next_rowid_def
      handle_export_def is_authenticated_def get_session_id_def startswith_def
      strip_def is_space_def after_equals_def csv_data_def csv_header_def csv_line_def
      select_order_by_timestamp_def table_scan_def
      row_fields_def export_csv_def session_logged_in_def writerow_def csv_field_def
      csv_special_def)

theorem server_export_splits_record_witness:
  "snd (handle_punch example_platform ''2024-01-01T09:00:00.000001''
          (Some (PDict [(''employee_id'', PStr (''Ann'' @ [CHR 0x0A] @ ''Lee'')),
                        (''action'', PStr ''in'')])) (init_db None))
   = \<lparr>rows = [\<lparr>rid = 1, employee_id = ''Ann'' @ [CHR 0x0A] @ ''Lee'', action = ''in'',
                timestamp = ''2024-01-01T09:00:00.000001'', latitude = RNull,
                longitude = RNull\<rparr>], seq = 1, locked = False\<rparr>"
  by (rule server_export_splits_record [THEN conjunct1])

text \<open>
  Claim C7 asks that the export can be parsed back to the records, also when an employee
  id holds a comma, a quote or a line break. \<^verbatim>\<open>app.py\<close> writes the rows with
  \<^verbatim>\<open>csv.writer\<close>, which quotes such a field. \<^verbatim>\<open>server.py\<close> pastes the fields between
  commas as they are: a table with the single record of an employee id that holds a line
  break gives, byte for byte, the export of a table with two other records, so no parser
  can give back the records of both.
\<close>

theorem server_export_not_injective:
  "handle_export example_platform ''20240102000000'' [''abc'' \<mapsto> True]
     (Some ''session_id=abc'')
     \<lparr>rows = [\<lparr>rid = 1,
                employee_id = ''E1,in,2024-01-01T09:00:00.000001,,'' @ [CHR 0x0A] @ ''E2'',
                action = ''in'', timestamp = ''2024-01-01T17:30:00.250000'',
                latitude = RNull, longitude = RNull\<rparr>], seq = 1, locked = False\<rparr>
   = handle_export example_platform ''20240102000000'' [''abc'' \<mapsto> True]
     (Some ''session_id=abc'')
     \<lparr>rows = [\<lparr>rid = 1, employee_id = ''E1'', action = ''in'',
                timestamp = ''2024-01-01T09:00:00.000001'', latitude = RNull,
                longitude = RNull\<rparr>,
              \<lparr>rid = 2, employee_id = ''E2'', action = ''in'',
                timestamp = ''2024-01-01T17:30:00.250000'', latitude = RNull,
                longitude = RNull\<rparr>], seq = 2, locked = False\<rparr>
   \<and> content (handle_export example_platform ''20240102000000'' [''abc'' \<mapsto> True]
       (Some ''session_id=abc'')
       \<lparr>rows = [\<lparr>rid = 1,
                  employee_id = ''E1,in,2024-01-01T09:00:00.000001,,'' @ [CHR 0x0A] @ ''E2'',
                  action = ''in'', timestamp = ''2024-01-01T17:30:00.250000'',
                  latitude = RNull, longitude = RNull\<rparr>], seq = 1, locked = False\<rparr>)
     = Text (''Employee ID,Action,Timestamp (UTC),Latitude,Longitude'' @ [CHR 0x0A]
             @ ''E1,in,2024-01-01T09:00:00.000001,,'' @ [CHR 0x0A]
             @ ''E2,in,2024-01-01T17:30:00.250000,,'')
   \<and> map (row_fields example_platform)
       [\<lparr>rid = 1,
          employee_id = ''E1,in,2024-01-01T09:00:00.000001,,'' @ [CHR 0x0A] @ ''E2'',
          action = ''in'', timestamp = ''2024-01-01T17:30:00.250000'',
          latitude = RNull, longitude = RNull\<rparr>]
     \<noteq> map (row_fields example_platform)
       [\<lparr>rid = 1, employee_id = ''E1'', action = ''in'',
          timestamp = ''2024-01-01T09:00:00.000001'', latitude = RNull, longitude = RNull\<rparr>,
        \<lparr>rid = 2, employee_id = ''E2'', action = ''in'',
          timestamp = ''2024-01-01T17:30:00.250000'', latitude = RNull, longitude = RNull\<rparr>]
   \<and> content (export_csv example_platform ''20240102000000''
       \<lparr>admin_logged_in = Some (PBool True), flashes = []\<rparr>
       \<lparr>rows = [\<lparr>rid = 1,
                  employee_id = ''E1,in,2024-01-01T09:00:00.000001,,'' @ [CHR 0x0A] @ ''E2'',
                  action = ''in'', timestamp = ''2024-01-01T17:30:00.250000'',
                  latitude = RNull, longitude = RNull\<rparr>], seq = 1, locked = False\<rparr>)
     = Text (''Employee ID,Action,Timestamp (UTC),Latitude,Longitude'' @ [CHR 0x0D, CHR 0x0A]
             @ [CHR 0x22] @ ''E1,in,2024-01-01T09:00:00.000001,,'' @ [CHR 0x0A] @ ''E2''
             @ [CHR 0x22] @ '',in,2024-01-01T17:30:00.250000,,'' @ [CHR 0x0D, CHR 0x0A])"
  by (simp add: handle_export_def is_authenticated_def get_session_id_def startswith_def
      strip_def is_space_def after_equals_def csv_data_def csv_header_def csv_line_def
      select_order_by_timestamp_def table_scan_def less_eq_char_def less_char_def
      row_fields_def export_csv_def session_logged_in_def writerow_def csv_field_def
      csv_special_def)

subsection \<open>The table only grows\<close>

lemma do_GET_store: "store (snd (do_GET st pf inp req s)) = store s"
  by (simp add: do_GET_def split: prod.splits)

lemma do_POST_store: "\<exists>new. rows (store (snd (do_POST env pf inp req s))) = rows (store s) @ new"
  using handle_punch_rows [of pf "now_iso inp" "json_body req" "store s"]
  by (auto simp: do_POST_def split: prod.splits)

lemma handle_store: "\<exists>new. rows (store (snd (handle st env pf inp r s))) = rows (store s) @ new"
  by (cases r) (simp_all add: handle_def do_GET_store do_POST_store)

lemma call_view_store:
  "\<exists>new. rows (snd (snd (call_view fv h env pf inp v sess d))) = rows d @ new"
proof (cases v)
  case (Punch j parsed)
  obtain out d' where p: "punch fv pf (now_iso inp) j parsed d = (out, d')"
    by (cases "punch fv pf (now_iso inp) j parsed d")
  then have "\<exists>new. rows d' = rows d @ new"
    using punch_rows [of fv pf "now_iso inp" j parsed d] by simp
  then show ?thesis using Punch p by (simp add: call_view_def)
qed (auto simp: call_view_def split: prod.splits)

lemma rows_release: "rows (release f d) = rows d"
  by (simp add: release_def)

lemma serve_all_store:
  "\<exists>new. rows (store (serve_all st env pf rs s)) = rows (store s) @ new"
proof (induction rs arbitrary: s)
  case Nil
  then show ?case by simp
next
  case (Cons x rs)
  obtain inp r where x: "x = (inp, r)" by (cases x)
  let ?s = "s\<lparr>store := release (freed inp) (store s)\<rparr>"
  obtain n1 where n1: "rows (store (snd (handle st env pf inp r ?s))) = rows (store ?s) @ n1"
    using handle_store by blast
  obtain n2 where "rows (store (serve_all st env pf rs (snd (handle st env pf inp r ?s))))
      = rows (store (snd (handle st env pf inp r ?s))) @ n2"
    using Cons.IH by blast
  then show ?case using x n1 by (simp add: rows_release)
qed

lemma call_all_store:
  "\<exists>new. rows (call_all fv h env pf cs d) = rows d @ new"
proof (induction cs arbitrary: d)
  case Nil
  then show ?case by simp
next
  case (Cons x cs)
  obtain inp v sess where x: "x = (inp, v, sess)" by (cases x)
  let ?d = "release (freed inp) d"
  obtain n1 where n1: "rows (snd (snd (call_view fv h env pf inp v sess ?d))) = rows ?d @ n1"
    using call_view_store by blast
  obtain n2 where
    "rows (call_all fv h env pf cs (snd (snd (call_view fv h env pf inp v sess ?d))))
      = rows (snd (snd (call_view fv h env pf inp v sess ?d))) @ n2"
    using Cons.IH by blast
  then show ?case using x n1 by (simp add: rows_release)
qed

text \<open>
  Claim C9. Whatever requests \<^verbatim>\<open>server.py\<close> handles and whatever views of \<^verbatim>\<open>app.py\<close>
  are called, one after the other, the table afterward is the table before with rows
  added at its end: every row that was there is still there, at its place, with the same
  id, employee id, action, timestamp, latitude and longitude.
\<close>

theorem store_append_only:
  "(\<exists>new. rows (store (serve_all st env pf rs s)) = rows (store s) @ new)
   \<and> set (rows (store s)) \<subseteq> set (rows (store (serve_all st env pf rs s)))
   \<and> (\<exists>new. rows (call_all fv h env pf cs d) = rows d @ new)
   \<and> set (rows d) \<subseteq> set (rows (call_all fv h env pf cs d))"
proof -
  obtain n1 where n1: "rows (store (serve_all st env pf rs s)) = rows (store s) @ n1"
    using serve_all_store by blast
  obtain n2 where n2: "rows (call_all fv h env pf cs d) = rows d @ n2"
    using call_all_store by blast
  from n1 n2 show ?thesis by auto
qed

theorem store_append_only_witness:
  "\<lparr>rid = 1, employee_id = ''E1'', action = ''in'',
      timestamp = ''2023-12-31T08:00:00.000500'', latitude = RNull, longitude = RNull\<rparr>
     \<in> set (rows (store (serve_all example_site Map.empty example_platform
          [(example_inputs,
            Post \<lparr>path = ''/punch'', cookie = None,
                  json_body = Some (PDict [(''employee_id'', PStr ''E2''),
                                           (''action'', PStr ''out''),
                                           (''id'', PInt 1)]),
                  form = Some []\<rparr>),
           (example_inputs,
            Get \<lparr>path = ''/admin/logout'', cookie = Some ''session_id=abc'',
                 json_body = None, form = Some []\<rparr>)]
          \<lparr>store = \<lparr>rows = [\<lparr>rid = 1, employee_id = ''E1'', action = ''in'',
                                timestamp = ''2023-12-31T08:00:00.000500'',
                                latitude = RNull, longitude = RNull\<rparr>], seq = 1, locked = False\<rparr>,
            logged_in = [''abc'' \<mapsto> True]\<rparr>)))
   \<and> \<lparr>rid = 1, employee_id = ''E1'', action = ''in'',
      timestamp = ''2023-12-31T08:00:00.000500'', latitude = RNull, longitude = RNull\<rparr>
     \<in> set (rows (call_all Flask_2_3 example_hasher Map.empty example_platform
          [(example_inputs,
            Punch True (Some (PDict [(''employee_id'', PStr ''E2''),
                                     (''action'', PStr ''out'')])),
            \<lparr>admin_logged_in = None, flashes = []\<rparr>),
           (example_inputs, AdminLogout,
            \<lparr>admin_logged_in = Some (PBool True), flashes = []\<rparr>)]
          \<lparr>rows = [\<lparr>rid = 1, employee_id = ''E1'', action = ''in'',
                     timestamp = ''2023-12-31T08:00:00.000500'',
                     latitude = RNull, longitude = RNull\<rparr>], seq = 1, locked = False\<rparr>))
   \<and> rows (store (serve_all example_site Map.empty example_platform
          [(example_inputs,
            Post \<lparr>path = ''/punch'', cookie = None,
                  json_body = Some (PDict [(''employee_id'', PStr ''E2''),
                                           (''action'', PStr ''out''),
                                           (''id'', PInt 1)]),
                  form = Some []\<rparr>),
           (example_inputs,
            Get \<lparr>path = ''/admin/logout'', cookie = Some ''session_id=abc'',
                 json_body = None, form = Some []\<rparr>)]
          \<lparr>store = \<lparr>rows = [\<lparr>rid = 1, employee_id = ''E1'', action = ''in'',
                                timestamp = ''2023-12-31T08:00:00.000500'',
                                latitude = RNull, longitude = RNull\<rparr>], seq = 1, locked = False\<rparr>,
            logged_in = [''abc'' \<mapsto> True]\<rparr>))
     = [\<lparr>rid = 1, employee_id = ''E1'', action = ''in'',
          timestamp = ''2023-12-31T08:00:00.000500'', latitude = RNull, longitude = RNull\<rparr>,
        \<lparr>rid = 2, employee_id = ''E2'', action = ''out'',
          timestamp = ''2024-01-01T09:00:00.000001'', latitude = RNull, longitude = RNull\<rparr>]"
proof -
  have run: "rows (store (serve_all example_site Map.empty example_platform
          [(example_inputs,
            Post \<lparr>path = ''/punch'', cookie = None,
                  json_body = Some (PDict [(''employee_id'', PStr ''E2''),
                                           (''action'', PStr ''out''),
                                           (''id'', PInt 1)]),
                  form = Some []\<rparr>),
           (example_inputs,
            Get \<lparr>path = ''/admin/logout'', cookie = Some ''session_id=abc'',
                 json_body = None, form = Some []\<rparr>)]
          \<lparr>store = \<lparr>rows = [\<lparr>rid = 1, employee_id = ''E1'', action = ''in'',
                                timestamp = ''2023-12-31T08:00:00.000500'',
                                latitude = RNull, longitude = RNull\<rparr>], seq = 1, locked = False\<rparr>,
            logged_in = [''abc'' \<mapsto> True]\<rparr>))
     = [\<lparr>rid = 1, employee_id = ''E1'', action = ''in'',
          timestamp = ''2023-12-31T08:00:00.000500'', latitude = RNull, longitude = RNull\<rparr>,
        \<lparr>rid = 2, employee_id = ''E2'', action = ''out'',
          timestamp = ''2024-01-01T09:00:00.000001'', latitude = RNull, longitude = RNull\<rparr>]"
    by (simp add: handle_def do_POST_def do_GET_def handle_punch_def dict_get_def
        execute_insert_def next_rowid_def example_inputs_def startswith_def
        handle_logout_def release_def split: prod.splits)
  show ?thesis
  using run store_append_only
    [where st = example_site and env = Map.empty and pf = example_platform
       and rs = "[(example_inputs,
            Post \<lparr>path = ''/punch'', cookie = None,
                  json_body = Some (PDict [(''employee_id'', PStr ''E2''),
                                           (''action'', PStr ''out''),
                                           (''id'', PInt 1)]),
                  form = Some []\<rparr>),
           (example_inputs,
            Get \<lparr>path = ''/admin/logout'', cookie = Some ''session_id=abc'',
                 json_body = None, form = Some []\<rparr>)]"
       and s = "\<lparr>store = \<lparr>rows = [\<lparr>rid = 1, employee_id = ''E1'', action = ''in'',
                                timestamp = ''2023-12-31T08:00:00.000500'',
                                latitude = RNull, longitude = RNull\<rparr>], seq = 1, locked = False\<rparr>,
            logged_in = [''abc'' \<mapsto> True]\<rparr>"
       and fv = Flask_2_3 and h = example_hasher
       and cs = "[(example_inputs,
            Punch True (Some (PDict [(''employee_id'', PStr ''E2''),
                                     (''action'', PStr ''out'')])),
            \<lparr>admin_logged_in = None, flashes = []\<rparr>),
           (example_inputs, AdminLogout,
            \<lparr>admin_logged_in = Some (PBool True), flashes = []\<rparr>)]"
       and d = "\<lparr>rows = [\<lparr>rid = 1, employee_id = ''E1'', action = ''in'',
                     timestamp = ''2023-12-31T08:00:00.000500'',
                     latitude = RNull, longitude = RNull\<rparr>], seq = 1, locked = False\<rparr>"]
  by (simp del: serve_all.simps call_all.simps)
qed

end
